theory Spec2Isabelle
  imports Complex_Main "HOL-Library.Sublist" "HOL-Library.Code_Target_Nat"
begin

section \<open>Text helpers\<close>

text \<open>
  Python strings are modelled as \<open>string\<close>, on the 8-bit range of characters. On that
  range the only decimal digits are \<open>0\<close> .. \<open>9\<close>, and lower-casing a character outside
  \<open>A\<close> .. \<open>Z\<close> never yields an ASCII letter, so \<open>str.lower\<close> followed by a search for an
  ASCII word is the ASCII lower-casing below.
\<close>

definition ord :: "char \<Rightarrow> nat" where
  "ord c = of_char c"

definition is_digit :: "char \<Rightarrow> bool" where
  "is_digit c = (48 \<le> ord c \<and> ord c \<le> 57)"

definition digit_val :: "char \<Rightarrow> int" where
  "digit_val c = int (ord c) - 48"

definition lower_char :: "char \<Rightarrow> char" where
  "lower_char c =
     (if 65 \<le> ord c \<and> ord c \<le> 90 then char_of (ord c + 32) else c)"

definition lower :: "string \<Rightarrow> string" where
  "lower s = map lower_char s"

text \<open>\<open>contains sub s\<close> is Python's \<open>sub in s\<close>.\<close>

fun contains :: "string \<Rightarrow> string \<Rightarrow> bool" where
  "contains sub [] = (sub = [])"
| "contains sub (c # cs) = (prefix sub (c # cs) \<or> contains sub cs)"

text \<open>Decimal rendering of a natural number, as \<open>str(n)\<close> and the f-string fields do.\<close>

definition digit_char :: "nat \<Rightarrow> char" where
  "digit_char n = char_of (48 + n mod 10)"

fun str_nat :: "nat \<Rightarrow> string" where
  "str_nat n = (if n < 10 then [digit_char n] else str_nat (n div 10) @ [digit_char n])"

declare str_nat.simps [simp del]

text \<open>Zero padding to a minimal width, as the \<open>%m\<close>, \<open>%d\<close> and \<open>%Y\<close> fields of strftime.\<close>

definition zfill :: "nat \<Rightarrow> string \<Rightarrow> string" where
  "zfill w s = replicate (w - length s) CHR ''0'' @ s"

section \<open>Calendar dates\<close>

text \<open>
  The proleptic Gregorian calendar of Python's \<open>datetime\<close> module: a date is a year, a
  month and a day; \<open>toordinal\<close> counts days from 0001-01-01 (ordinal 1), and adding a
  \<open>timedelta\<close> of whole days goes through the ordinal. A date beyond year 9999 or before
  year 1 does not exist: the addition raises OverflowError, here \<open>None\<close>.
\<close>

datatype date = Date (year: int) (month: int) (day: int)

definition is_leap :: "int \<Rightarrow> bool" where
  "is_leap y = (y mod 4 = 0 \<and> (y mod 100 \<noteq> 0 \<or> y mod 400 = 0))"

definition days_before_year :: "int \<Rightarrow> int" where
  "days_before_year y = (let y1 = y - 1 in y1 * 365 + y1 div 4 - y1 div 100 + y1 div 400)"

definition month_lengths :: "int list" where
  "month_lengths = [31, 28, 31, 30, 31, 30, 31, 31, 30, 31, 30, 31]"

definition days_in_month :: "int \<Rightarrow> int \<Rightarrow> int" where
  "days_in_month y m =
     (if m = 2 \<and> is_leap y then 29 else month_lengths ! nat (m - 1))"

definition days_before_month :: "int \<Rightarrow> int \<Rightarrow> int" where
  "days_before_month y m =
     sum_list (take (nat (m - 1)) month_lengths) + (if 2 < m \<and> is_leap y then 1 else 0)"

definition valid_date :: "int \<Rightarrow> int \<Rightarrow> int \<Rightarrow> bool" where
  "valid_date y m d =
     (1 \<le> y \<and> y \<le> 9999 \<and> 1 \<le> m \<and> m \<le> 12 \<and> 1 \<le> d \<and> d \<le> days_in_month y m)"

definition toordinal :: "date \<Rightarrow> int" where
  "toordinal dt = days_before_year (year dt) + days_before_month (year dt) (month dt) + day dt"

definition max_ordinal :: int where
  "max_ordinal = 3652059"

text \<open>The inverse of \<open>toordinal\<close>, by the 400-, 100-, 4- and 1-year cycles.\<close>

definition fromordinal :: "int \<Rightarrow> date" where
  "fromordinal n0 =
     (let n = n0 - 1;
          n400 = n div 146097; n = n mod 146097;
          n100 = n div 36524; n = n mod 36524;
          n4 = n div 1461; n = n mod 1461;
          n1 = n div 365; n = n mod 365;
          y = n400 * 400 + 1 + n100 * 100 + n4 * 4 + n1
      in if n1 = 4 \<or> n100 = 4 then Date (y - 1) 12 31
         else
           let leapyear = (n1 = 3 \<and> (n4 \<noteq> 24 \<or> n100 = 3));
               m = (n + 50) div 32;
               preceding = sum_list (take (nat (m - 1)) month_lengths)
                             + (if 2 < m \<and> leapyear then 1 else 0)
           in if n < preceding
              then
                let m' = m - 1;
                    preceding' = preceding
                       - (month_lengths ! nat (m' - 1) + (if m' = 2 \<and> leapyear then 1 else 0))
                in Date y m' (n - preceding' + 1)
              else Date y m (n - preceding + 1))"

definition add_days :: "date \<Rightarrow> int \<Rightarrow> date option" where
  "add_days dt k =
     (let n = toordinal dt + k
      in if 0 < n \<and> n \<le> max_ordinal then Some (fromordinal n) else None)"

text \<open>\<open>weekday\<close>: Monday is 0, Sunday is 6.\<close>

definition weekday :: "date \<Rightarrow> int" where
  "weekday dt = (toordinal dt + 6) mod 7"

section \<open>Errors\<close>

text \<open>
  Every exception the modelled code can raise is a value. \<open>ProviderError\<close> is an
  exception coming out of the completion call of the provider library; its text is what
  \<open>str(error)\<close> gives. \<open>LLMError\<close> carries its message, its \<open>original_error\<close> and its
  \<open>retry_count\<close>; \<open>PlainException\<close> is \<open>Exception(message)\<close>.
\<close>

datatype error =
    ValueError string
  | TypeError string
  | KeyError string
  | OverflowError string
  | ProviderError string
  | DatabaseError string
  | LLMError string "error option" nat
  | PlainException string

fun error_str :: "error \<Rightarrow> string" where
  "error_str (ValueError m) = m"
| "error_str (TypeError m) = m"
| "error_str (KeyError m) = m"
| "error_str (OverflowError m) = m"
| "error_str (ProviderError m) = m"
| "error_str (DatabaseError m) = m"
| "error_str (LLMError m orig n) = m"
| "error_str (PlainException m) = m"

text \<open>\<open>str(last_error)\<close> where \<open>last_error\<close> may still be \<open>None\<close>.\<close>

definition opt_error_str :: "error option \<Rightarrow> string" where
  "opt_error_str e = (case e of None \<Rightarrow> ''None'' | Some x \<Rightarrow> error_str x)"

section \<open>Parsing and printing dates\<close>

text \<open>
  \<open>datetime.strptime(s, "%Y-%m-%d")\<close>: the year is exactly four digits; the month is
  \<open>1[0-2]\<close>, \<open>0[1-9]\<close> or \<open>[1-9]\<close>; the day is \<open>3[0-1]\<close>, \<open>[1-2]\d\<close>, \<open>0[1-9]\<close>, \<open>[1-9]\<close>
  or a blank followed by \<open>[1-9]\<close>; nothing may remain after the day; and the three
  numbers must be a date of the calendar. Every other string raises ValueError.
\<close>

definition number_of :: "string \<Rightarrow> int" where
  "number_of s = foldl (\<lambda>acc c. 10 * acc + digit_val c) 0 s"

definition parse_month :: "string \<Rightarrow> int option" where
  "parse_month s =
     (case s of
        [a] \<Rightarrow> if is_digit a \<and> a \<noteq> CHR ''0'' then Some (digit_val a) else None
      | [a, b] \<Rightarrow>
          if is_digit a \<and> is_digit b \<and> 1 \<le> number_of [a, b] \<and> number_of [a, b] \<le> 12
          then Some (number_of [a, b]) else None
      | _ \<Rightarrow> None)"

definition parse_day :: "string \<Rightarrow> int option" where
  "parse_day s =
     (case s of
        [a] \<Rightarrow> if is_digit a \<and> a \<noteq> CHR ''0'' then Some (digit_val a) else None
      | [a, b] \<Rightarrow>
          if is_digit a \<and> is_digit b \<and> 1 \<le> number_of [a, b] \<and> number_of [a, b] \<le> 31
          then Some (number_of [a, b])
          else if a = CHR '' '' \<and> is_digit b \<and> b \<noteq> CHR ''0'' then Some (digit_val b)
          else None
      | _ \<Rightarrow> None)"

definition strptime_ymd :: "string \<Rightarrow> error + date" where
  "strptime_ymd s =
     (let ys = take 4 s;
          ms = takeWhile (\<lambda>c. c \<noteq> CHR ''-'') (drop 5 s);
          ds = drop (6 + length ms) s
      in if length ys = 4 \<and> list_all is_digit ys
            \<and> take 1 (drop 4 s) = ''-''
            \<and> take 1 (drop (5 + length ms) s) = ''-''
         then (case (parse_month ms, parse_day ds) of
                 (Some m, Some d) \<Rightarrow>
                   if valid_date (number_of ys) m d then Inr (Date (number_of ys) m d)
                   else Inl (ValueError ''day is out of range for month'')
               | _ \<Rightarrow> Inl (ValueError ''time data does not match format''))
         else Inl (ValueError ''time data does not match format''))"

text \<open>
  \<open>strftime("%Y-%m-%d")\<close>: month and day on two digits; the year in decimal, which for
  every year from 1000 on is its four digits.
\<close>

definition strftime_ymd :: "date \<Rightarrow> string" where
  "strftime_ymd dt =
     str_nat (nat (year dt)) @ ''-'' @ zfill 2 (str_nat (nat (month dt)))
       @ ''-'' @ zfill 2 (str_nat (nat (day dt)))"

section \<open>The week bucket\<close>

text \<open>
  \<open>PlanningEngine.get_week_number\<close>. The argument is reduced to its calendar day;
  \<open>day_num\<close> is \<open>weekday() + 1\<close> with Sunday turned into 0; the day is moved by
  \<open>4 - day_num\<close> days; the result is \<open>(days_diff + 6) // 7\<close> for the one-based day of the
  year of the moved date.
\<close>

definition get_week_number :: "date \<Rightarrow> error + int" where
  "get_week_number dt =
     (let day_num = weekday dt + 1;
          day_num = (if day_num = 7 then 0 else day_num)
      in case add_days dt (4 - day_num) of
           None \<Rightarrow> Inl (OverflowError ''date value out of range'')
         | Some d \<Rightarrow>
             let year_start = Date (year d) 1 1;
                 days_diff = (toordinal d - toordinal year_start) + 1
             in Inr ((days_diff + 6) div 7))"

text \<open>
  The ISO week of a date is the Monday-to-Sunday week that holds it; two dates are in
  the same ISO week when the Mondays of their weeks coincide.
\<close>

definition iso_week_monday :: "date \<Rightarrow> int" where
  "iso_week_monday dt = toordinal dt - weekday dt"

definition same_iso_week :: "date \<Rightarrow> date \<Rightarrow> bool" where
  "same_iso_week a b = (iso_week_monday a = iso_week_monday b)"

definition following_iso_week :: "date \<Rightarrow> date \<Rightarrow> bool" where
  "following_iso_week a b = (iso_week_monday b = iso_week_monday a + 7)"

section \<open>Python values\<close>

text \<open>
  The values that flow through the planning code: what \<open>json.loads\<close> returns and what
  an options dictionary holds (\<open>None\<close>, booleans, integers, floats, strings, lists and
  dictionaries with string keys), and what a database row holds besides (identifiers,
  dates, timestamps and decimals). A dictionary is an association list; a key is looked
  up with \<open>map_of\<close>. A timestamp is a date and the second of the day; floats and
  decimals are modelled by the real number they stand for.
\<close>

datatype pyval =
    PNone
  | PBool bool
  | PInt int
  | PFloat real
  | PStr string
  | PList "pyval list"
  | PDict "(string \<times> pyval) list"
  | PUuid string
  | PDate date
  | PDatetime date nat
  | PDecimal real

section \<open>The plan schema\<close>

text \<open>
  The models \<open>TimeBlock\<close>, \<open>GoalProgress\<close>, \<open>SocialTime\<close> and \<open>DailyPlan\<close> of
  \<open>models/schemas.py\<close>, each field with the type its annotation declares and the
  constraint its \<open>Field\<close> declares: a string field takes a string, an integer field an
  integer, a list field a list and a model field a dictionary; conversions that the
  validation library may apply to a value of another type are outside the model. The
  three patterns of the schema are sequences of
  character classes of a fixed length, anchored at both ends.
\<close>

datatype TimeBlock = TimeBlock
  (tb_start_time: string) (tb_end_time: string) (tb_task_id: "string option")
  (tb_activity: string) (tb_priority: int) (tb_reasoning: string)

datatype GoalProgress = GoalProgress
  (gp_goal_id: string) (gp_status: string) (gp_action_needed: string)

datatype SocialTime = SocialTime
  (st_total_minutes: int) (st_reasoning: string)

datatype DailyPlan = DailyPlan
  (dp_date: string) (dp_reasoning: string) (dp_priority_analysis: string)
  (dp_time_blocks: "TimeBlock list") (dp_social_time_allocation: SocialTime)
  (dp_goal_progress_assessment: "GoalProgress list") (dp_warnings: "string list")

datatype char_class = Digit | HexDash | Lit char

fun in_class :: "char_class \<Rightarrow> char \<Rightarrow> bool" where
  "in_class Digit c = is_digit c"
| "in_class HexDash c = (is_digit c \<or> (97 \<le> ord c \<and> ord c \<le> 102) \<or> c = CHR ''-'')"
| "in_class (Lit l) c = (c = l)"

definition pattern :: "char_class list \<Rightarrow> string \<Rightarrow> bool" where
  "pattern cs s = list_all2 in_class cs s"

text \<open>\<open>^\d{2}:\d{2}$\<close>, \<open>^[0-9a-f-]{36}$\<close> and \<open>^\d{4}-\d{2}-\d{2}$\<close>.\<close>

definition time_pattern :: "char_class list" where
  "time_pattern = [Digit, Digit, Lit CHR '':'', Digit, Digit]"

definition id_pattern :: "char_class list" where
  "id_pattern = replicate 36 HexDash"

definition date_pattern :: "char_class list" where
  "date_pattern = replicate 4 Digit @ [Lit CHR ''-''] @ replicate 2 Digit
                    @ [Lit CHR ''-''] @ replicate 2 Digit"

text \<open>
  Validation collects the locations of all failing fields, as the validation library
  does: a location is the path of field names and list indices that leads to the value.
  \<open>Inl\<close> holds the locations, \<open>Inr\<close> the validated value.
\<close>

type_synonym loc = "string list"

fun ap :: "loc list + ('a \<Rightarrow> 'b) \<Rightarrow> loc list + 'a \<Rightarrow> loc list + 'b" where
  "ap (Inr f) (Inr x) = Inr (f x)"
| "ap (Inl e) (Inr x) = Inl e"
| "ap (Inr f) (Inl e) = Inl e"
| "ap (Inl e) (Inl e') = Inl (e @ e')"

definition at_loc :: "string \<Rightarrow> loc list + 'a \<Rightarrow> loc list + 'a" where
  "at_loc k v = (case v of Inl ls \<Rightarrow> Inl (map ((#) k) ls) | Inr x \<Rightarrow> Inr x)"

definition str_value :: "(string \<Rightarrow> bool) \<Rightarrow> pyval \<Rightarrow> loc list + string" where
  "str_value ok j = (case j of PStr s \<Rightarrow> if ok s then Inr s else Inl [[]] | _ \<Rightarrow> Inl [[]])"

definition int_value :: "(int \<Rightarrow> bool) \<Rightarrow> pyval \<Rightarrow> loc list + int" where
  "int_value ok j = (case j of PInt n \<Rightarrow> if ok n then Inr n else Inl [[]] | _ \<Rightarrow> Inl [[]])"

definition required :: "(pyval \<Rightarrow> loc list + 'a) \<Rightarrow> (string \<times> pyval) list \<Rightarrow> string \<Rightarrow> loc list + 'a"
  where
  "required v obj k = at_loc k (case map_of obj k of None \<Rightarrow> Inl [[]] | Some j \<Rightarrow> v j)"

text \<open>\<open>Optional[...] = Field(None, ...)\<close>: an absent key and \<open>None\<close> both give \<open>None\<close>.\<close>

definition optional ::
  "(pyval \<Rightarrow> loc list + 'a) \<Rightarrow> (string \<times> pyval) list \<Rightarrow> string \<Rightarrow> loc list + 'a option"
  where
  "optional v obj k =
     at_loc k (case map_of obj k of
             None \<Rightarrow> Inr None
           | Some PNone \<Rightarrow> Inr None
           | Some j \<Rightarrow> (case v j of Inl ls \<Rightarrow> Inl ls | Inr x \<Rightarrow> Inr (Some x)))"

fun list_items :: "(pyval \<Rightarrow> loc list + 'a) \<Rightarrow> nat \<Rightarrow> pyval list \<Rightarrow> loc list + 'a list" where
  "list_items v i [] = Inr []"
| "list_items v i (j # js) = ap (ap (Inr (#)) (at_loc (str_nat i) (v j))) (list_items v (Suc i) js)"

definition list_value :: "(pyval \<Rightarrow> loc list + 'a) \<Rightarrow> pyval \<Rightarrow> loc list + 'a list" where
  "list_value v j = (case j of PList js \<Rightarrow> list_items v 0 js | _ \<Rightarrow> Inl [[]])"

definition model_value :: "((string \<times> pyval) list \<Rightarrow> loc list + 'a) \<Rightarrow> pyval \<Rightarrow> loc list + 'a"
  where
  "model_value m j = (case j of PDict obj \<Rightarrow> m obj | _ \<Rightarrow> Inl [[]])"

definition min_length :: "nat \<Rightarrow> string \<Rightarrow> bool" where
  "min_length n s = (n \<le> length s)"

definition any_str :: "string \<Rightarrow> bool" where
  "any_str s = True"

definition TimeBlock_fields :: "(string \<times> pyval) list \<Rightarrow> loc list + TimeBlock" where
  "TimeBlock_fields obj =
     ap (ap (ap (ap (ap (ap (Inr TimeBlock)
       (required (str_value (pattern time_pattern)) obj ''start_time''))
       (required (str_value (pattern time_pattern)) obj ''end_time''))
       (optional (str_value (pattern id_pattern)) obj ''task_id''))
       (required (str_value (min_length 1)) obj ''activity''))
       (required (int_value (\<lambda>n. 1 \<le> n \<and> n \<le> 5)) obj ''priority''))
       (required (str_value (min_length 1)) obj ''reasoning'')"

definition GoalProgress_fields :: "(string \<times> pyval) list \<Rightarrow> loc list + GoalProgress" where
  "GoalProgress_fields obj =
     ap (ap (ap (Inr GoalProgress)
       (required (str_value (pattern id_pattern)) obj ''goal_id''))
       (required (str_value (\<lambda>s. s \<in> set [''on_track'', ''at_risk'', ''blocked''])) obj ''status''))
       (required (str_value any_str) obj ''action_needed'')"

definition SocialTime_fields :: "(string \<times> pyval) list \<Rightarrow> loc list + SocialTime" where
  "SocialTime_fields obj =
     ap (ap (Inr SocialTime)
       (required (int_value (\<lambda>n. 0 \<le> n)) obj ''total_minutes''))
       (required (str_value (min_length 1)) obj ''reasoning'')"

definition DailyPlan_fields :: "(string \<times> pyval) list \<Rightarrow> loc list + DailyPlan" where
  "DailyPlan_fields obj =
     ap (ap (ap (ap (ap (ap (ap (Inr DailyPlan)
       (required (str_value (pattern date_pattern)) obj ''date''))
       (required (str_value (min_length 10)) obj ''reasoning''))
       (required (str_value (min_length 10)) obj ''priority_analysis''))
       (required (list_value (model_value TimeBlock_fields)) obj ''time_blocks''))
       (required (model_value SocialTime_fields) obj ''social_time_allocation''))
       (required (list_value (model_value GoalProgress_fields)) obj ''goal_progress_assessment''))
       (required (list_value (str_value any_str)) obj ''warnings'')"

text \<open>
  \<open>validate_plan\<close>: \<open>DailyPlan(**plan_data)\<close> inside \<open>try\<close>, every exception turned into
  a ValueError whose text holds the text of the cause. The cause is a TypeError when
  \<open>plan_data\<close> is no dictionary, and otherwise the validation error, whose text lists the
  failing locations.
\<close>

definition show_loc :: "loc \<Rightarrow> string" where
  "show_loc l = concat (map (\<lambda>k. k @ ''.'') l)"

definition show_locs :: "loc list \<Rightarrow> string" where
  "show_locs ls = concat (map (\<lambda>l. show_loc l @ '' '') ls)"

definition validate_plan :: "pyval \<Rightarrow> error + DailyPlan" where
  "validate_plan plan_data =
     (case plan_data of
        PDict obj \<Rightarrow>
          (case DailyPlan_fields obj of
             Inl ls \<Rightarrow> Inl (ValueError (''Invalid plan structure: '' @ show_locs ls))
           | Inr p \<Rightarrow> Inr p)
      | _ \<Rightarrow> Inl (ValueError ''Invalid plan structure: argument after ** must be a mapping''))"

text \<open>\<open>plan.dict()\<close>: the declared fields of the validated model, nested models as dictionaries.\<close>

definition opt_str_json :: "string option \<Rightarrow> pyval" where
  "opt_str_json x = (case x of None \<Rightarrow> PNone | Some s \<Rightarrow> PStr s)"

definition TimeBlock_dict :: "TimeBlock \<Rightarrow> pyval" where
  "TimeBlock_dict b =
     PDict [(''start_time'', PStr (tb_start_time b)), (''end_time'', PStr (tb_end_time b)),
           (''task_id'', opt_str_json (tb_task_id b)), (''activity'', PStr (tb_activity b)),
           (''priority'', PInt (tb_priority b)), (''reasoning'', PStr (tb_reasoning b))]"

definition GoalProgress_dict :: "GoalProgress \<Rightarrow> pyval" where
  "GoalProgress_dict g =
     PDict [(''goal_id'', PStr (gp_goal_id g)), (''status'', PStr (gp_status g)),
           (''action_needed'', PStr (gp_action_needed g))]"

definition SocialTime_dict :: "SocialTime \<Rightarrow> pyval" where
  "SocialTime_dict t =
     PDict [(''total_minutes'', PInt (st_total_minutes t)), (''reasoning'', PStr (st_reasoning t))]"

definition DailyPlan_dict :: "DailyPlan \<Rightarrow> pyval" where
  "DailyPlan_dict p =
     PDict [(''date'', PStr (dp_date p)), (''reasoning'', PStr (dp_reasoning p)),
           (''priority_analysis'', PStr (dp_priority_analysis p)),
           (''time_blocks'', PList (map TimeBlock_dict (dp_time_blocks p))),
           (''social_time_allocation'', SocialTime_dict (dp_social_time_allocation p)),
           (''goal_progress_assessment'',
              PList (map GoalProgress_dict (dp_goal_progress_assessment p))),
           (''warnings'', PList (map PStr (dp_warnings p)))]"

section \<open>The plan contract, as the specification words it\<close>


definition is_YYYY_MM_DD :: "string \<Rightarrow> bool" where
  "is_YYYY_MM_DD s =
     (length s = 10 \<and> s ! 4 = CHR ''-'' \<and> s ! 7 = CHR ''-''
      \<and> (\<forall>i \<in> {0, 1, 2, 3, 5, 6, 8, 9}. is_digit (s ! i)))"













text \<open>Two time blocks that overlap, 09:00 to 10:30 and 10:00 to 11:00, in an otherwise plain plan.\<close>

definition overlapping_plan :: pyval where
  "overlapping_plan =
     PDict [(''date'', PStr ''2025-03-10''),
           (''reasoning'', PStr ''deep work first''),
           (''priority_analysis'', PStr ''goal one leads''),
           (''time_blocks'',
              PList [PDict [(''start_time'', PStr ''09:00''), (''end_time'', PStr ''10:30''),
                           (''task_id'', PNone), (''activity'', PStr ''write report''),
                           (''priority'', PInt 5), (''reasoning'', PStr ''deadline'')],
                     PDict [(''start_time'', PStr ''10:00''), (''end_time'', PStr ''11:00''),
                           (''task_id'', PStr ''123e4567-e89b-12d3-a456-426614174000''),
                           (''activity'', PStr ''review''),
                           (''priority'', PInt 3), (''reasoning'', PStr ''follow up'')]]),
           (''social_time_allocation'',
              PDict [(''total_minutes'', PInt 60), (''reasoning'', PStr ''weekly cap'')]),
           (''goal_progress_assessment'',
              PList [PDict [(''goal_id'', PStr ''123e4567-e89b-12d3-a456-426614174000''),
                           (''status'', PStr ''on_track''), (''action_needed'', PStr ''none'')]]),
           (''warnings'', PList [])]"




section \<open>The world the planning code runs in\<close>

text \<open>
  Everything outside the code is explicit state. The clock \<open>now\<close> is a date and the
  second of the day. The tables of the database hold rows; a row of the tables that are
  only read is the dictionary \<open>dict(record)\<close> gives, and a row of the two tables that
  are written is a record. The \<open>k\<close>-th statement sent to the database fails with a
  DatabaseError when \<open>db_fault\<close> gives a text for \<open>k\<close>. The \<open>k\<close>-th completion call of
  the provider gives \<open>llm_script k\<close>: \<open>Inr\<close> the content of the response, or \<open>Inl\<close> the
  text of the exception that the call, or reading the content out of the response,
  raises. \<open>trace\<close> records the completion calls and the sleeps in the order they happen,
  \<open>errlog\<close> the records of level ERROR with the name of the module that logs them.
\<close>

type_synonym row = "(string \<times> pyval) list"

type_synonym timestamp = "date \<times> nat"

record plan_row =
  pr_id :: pyval
  pr_user_id :: pyval
  pr_plan_date :: date
  pr_plan_json :: pyval
  pr_reasoning :: pyval
  pr_generated_at :: timestamp
  pr_modified_at :: timestamp
  pr_is_override :: bool

record override_row =
  or_id :: pyval
  or_user_id :: pyval
  or_plan_id :: pyval
  or_override_type :: string
  or_override_reason :: string
  or_override_timestamp :: timestamp
  or_week_number :: int

text \<open>
  A prompt is kept as the data it is rendered from: the fixed planning system prompt,
  the planning prompt around a context, or any other text.
\<close>

datatype prompt = PlanningSystemPrompt | PlanningPrompt pyval | Text string

record request =
  rq_model :: string
  rq_messages :: "(string \<times> prompt) list"
  rq_api_key :: string
  rq_temperature :: pyval
  rq_max_tokens :: pyval
  rq_response_format :: "pyval option"

datatype event = Call request | Sleep real

record world =
  now :: timestamp
  environ :: "string \<rightharpoonup> string"
  db_fault :: "nat \<Rightarrow> string option"
  db_calls :: nat
  users :: "row list"
  goals :: "row list"
  tasks :: "row list"
  goal_tasks :: "row list"
  calendar_events :: "row list"
  relationships :: "row list"
  daily_plans :: "plan_row list"
  override_log :: "override_row list"
  next_id :: nat
  llm_script :: "nat \<Rightarrow> string + string"
  llm_calls :: nat
  trace :: "event list"
  errlog :: "(string \<times> string) list"

definition log_error :: "string \<Rightarrow> string \<Rightarrow> world \<Rightarrow> world" where
  "log_error name msg w = w\<lparr>errlog := errlog w @ [(name, msg)]\<rparr>"

text \<open>Sequencing of steps that may raise: the first error ends the sequence.\<close>

definition and_then ::
  "(world \<Rightarrow> (error + 'a) \<times> world) \<Rightarrow> ('a \<Rightarrow> world \<Rightarrow> (error + 'b) \<times> world)
     \<Rightarrow> world \<Rightarrow> (error + 'b) \<times> world" where
  "and_then m f w = (case m w of (Inl e, w') \<Rightarrow> (Inl e, w') | (Inr x, w') \<Rightarrow> f x w')"

definition return :: "'a \<Rightarrow> world \<Rightarrow> (error + 'a) \<times> world" where
  "return x w = (Inr x, w)"

definition raise :: "error \<Rightarrow> world \<Rightarrow> (error + 'a) \<times> world" where
  "raise e w = (Inl e, w)"

text \<open>
  \<open>query\<close> of \<open>core/database.py\<close>: the statement runs, or the failure is logged and
  raised again as a DatabaseError.
\<close>

definition query :: "(world \<Rightarrow> 'a \<times> world) \<Rightarrow> world \<Rightarrow> (error + 'a) \<times> world" where
  "query stmt w =
     (let w1 = w\<lparr>db_calls := db_calls w + 1\<rparr>
      in case db_fault w (db_calls w) of
           Some msg \<Rightarrow>
             (Inl (DatabaseError (''Database query error: '' @ msg)),
              log_error ''database'' (''Database query error: '' @ msg) w1)
         | None \<Rightarrow> (case stmt w1 of (r, w2) \<Rightarrow> (Inr r, w2)))"

definition reading :: "(world \<Rightarrow> 'a) \<Rightarrow> world \<Rightarrow> 'a \<times> world" where
  "reading f w = (f w, w)"

section \<open>The completion client\<close>

record settings =
  llm_provider :: string
  llm_api_key :: "string option"
  llm_model :: string
  llm_base_url :: string

record llm_client =
  lc_provider :: string
  lc_api_key :: string
  lc_base_model :: string
  lc_base_url :: string
  lc_max_retries :: nat
  lc_retry_delay :: real
  lc_model :: string

text \<open>\<open>LLMClient.__init__\<close>: no key, or an empty one, raises; three attempts, one second.\<close>

definition LLMClient_init :: "settings \<Rightarrow> error + llm_client" where
  "LLMClient_init st =
     (case llm_api_key st of
        None \<Rightarrow> Inl (LLMError ''LLM_API_KEY not configured'' None 0)
      | Some key \<Rightarrow>
          if key = [] then Inl (LLMError ''LLM_API_KEY not configured'' None 0)
          else Inr \<lparr>lc_provider = llm_provider st, lc_api_key = key,
                     lc_base_model = llm_model st, lc_base_url = llm_base_url st,
                     lc_max_retries = 3, lc_retry_delay = 1,
                     lc_model = (if contains ''/'' (llm_model st) then llm_model st
                                 else llm_provider st @ ''/'' @ llm_model st)\<rparr>)"

text \<open>Truth value of a Python value, as \<open>if options.get("jsonMode")\<close> takes it.\<close>

fun truthy :: "pyval \<Rightarrow> bool" where
  "truthy PNone = False"
| "truthy (PBool b) = b"
| "truthy (PInt n) = (n \<noteq> 0)"
| "truthy (PFloat x) = (x \<noteq> 0)"
| "truthy (PStr s) = (s \<noteq> [])"
| "truthy (PList xs) = (xs \<noteq> [])"
| "truthy (PDict kvs) = (kvs \<noteq> [])"
| "truthy (PUuid s) = True"
| "truthy (PDate d) = True"
| "truthy (PDatetime d s) = True"
| "truthy (PDecimal x) = (x \<noteq> 0)"

text \<open>The parameters of the completion request, built from the options.\<close>

definition completion_params ::
  "llm_client \<Rightarrow> prompt \<Rightarrow> prompt \<Rightarrow> (string \<rightharpoonup> pyval) \<Rightarrow> request" where
  "completion_params c system_prompt user_prompt options =
     \<lparr>rq_model = lc_model c,
      rq_messages = [(''system'', system_prompt), (''user'', user_prompt)],
      rq_api_key = lc_api_key c,
      rq_temperature = (case options ''temperature'' of None \<Rightarrow> PFloat 0.7 | Some v \<Rightarrow> v),
      rq_max_tokens = (case options ''maxTokens'' of None \<Rightarrow> PInt 2000 | Some v \<Rightarrow> v),
      rq_response_format =
        (if truthy (case options ''jsonMode'' of None \<Rightarrow> PNone | Some v \<Rightarrow> v)
         then Some (PDict [(''type'', PStr ''json_object'')]) else None)\<rparr>"

definition acompletion :: "request \<Rightarrow> world \<Rightarrow> (string + string) \<times> world" where
  "acompletion rq w =
     (llm_script w (llm_calls w), w\<lparr>llm_calls := llm_calls w + 1, trace := trace w @ [Call rq]\<rparr>)"

definition sleep :: "real \<Rightarrow> world \<Rightarrow> world" where
  "sleep delay w = w\<lparr>trace := trace w @ [Sleep delay]\<rparr>"

definition retry_codes :: "string list" where
  "retry_codes = [''rate limit'', ''timeout'', ''connection'', ''network'', ''temporary'',
                  ''service unavailable'', ''429'', ''502'', ''503'', ''504'']"

definition retryable :: "string \<Rightarrow> bool" where
  "retryable text = (\<exists>code \<in> set retry_codes. contains code (lower text))"

definition call_failed :: "llm_client \<Rightarrow> error option \<Rightarrow> error" where
  "call_failed c last_error =
     LLMError (''LLM API call failed after '' @ str_nat (lc_max_retries c) @ '' attempts'')
       last_error 0"

text \<open>
  The retry loop of \<open>complete\<close>, from attempt number \<open>attempt\<close> (counted from 0) on, and
  the \<open>raise\<close> after the loop.
\<close>

function complete_loop ::
  "llm_client \<Rightarrow> request \<Rightarrow> nat \<Rightarrow> error option \<Rightarrow> world \<Rightarrow> (error + string) \<times> world" where
  "complete_loop c params attempt last_error w =
     (if attempt < lc_max_retries c then
        (case acompletion params w of
           (Inr content, w1) \<Rightarrow> (Inr content, w1)
         | (Inl text, w1) \<Rightarrow>
             (let w2 = log_error ''llm_client''
                         (''LLM error on attempt '' @ str_nat (attempt + 1) @ ''/''
                            @ str_nat (lc_max_retries c) @ '': '' @ text) w1
              in if \<not> retryable text \<or> attempt = lc_max_retries c - 1
                 then (Inl (call_failed c (Some (ProviderError text))), w2)
                 else complete_loop c params (attempt + 1) (Some (ProviderError text))
                        (sleep (lc_retry_delay c * 2 ^ attempt) w2)))
      else (Inl (call_failed c last_error), w))"
  by pat_completeness auto
termination
  by (relation "measure (\<lambda>(c, params, attempt, last_error, w). lc_max_retries c - attempt)") auto

declare complete_loop.simps [simp del]

definition complete ::
  "llm_client \<Rightarrow> prompt \<Rightarrow> prompt \<Rightarrow> (string \<rightharpoonup> pyval) option \<Rightarrow> world
     \<Rightarrow> (error + string) \<times> world" where
  "complete c system_prompt user_prompt options w =
     (let options = (case options of None \<Rightarrow> Map.empty | Some opts \<Rightarrow> opts);
          params = completion_params c system_prompt user_prompt options
      in complete_loop c params 0 None w)"

text \<open>
  The calls and sleeps of \<open>n\<close> attempts: attempt 1 is one call, and every further attempt
  \<open>m\<close> is a sleep of \<open>base * 2 ^ (m - 2)\<close> seconds followed by one call.
\<close>

fun attempts_trace :: "request \<Rightarrow> real \<Rightarrow> nat \<Rightarrow> event list" where
  "attempts_trace rq base 0 = []"
| "attempts_trace rq base (Suc 0) = [Call rq]"
| "attempts_trace rq base (Suc (Suc n)) =
     attempts_trace rq base (Suc n) @ [Sleep (base * 2 ^ (Suc (Suc n) - 2)), Call rq]"

text \<open>The outcome of the \<open>i\<close>-th completion call made from world \<open>w\<close> on, counted from 0.\<close>

definition outcome :: "world \<Rightarrow> nat \<Rightarrow> string + string" where
  "outcome w i = llm_script w (llm_calls w + i)"

definition some_options :: "(string \<rightharpoonup> pyval) option \<Rightarrow> string \<rightharpoonup> pyval" where
  "some_options options = (case options of None \<Rightarrow> Map.empty | Some opts \<Rightarrow> opts)"

text \<open>A world for examples: an empty database, a provider that is rate limited twice
  and then answers.\<close>

definition rate_limited_world :: world where
  "rate_limited_world =
     \<lparr>now = (Date 2025 3 9, 7200), environ = Map.empty, db_fault = (\<lambda>k. None), db_calls = 0,
      users = [], goals = [], tasks = [], goal_tasks = [], calendar_events = [],
      relationships = [], daily_plans = [], override_log = [], next_id = 0,
      llm_script = (\<lambda>k. if k < 2 then Inl ''Rate limit exceeded'' else Inr ''done''),
      llm_calls = 0, trace = [], errlog = []\<rparr>"

definition groq_settings :: settings where
  "groq_settings = \<lparr>llm_provider = ''groq'', llm_api_key = Some ''key'',
                     llm_model = ''llama-3.3-70b-versatile'',
                     llm_base_url = ''https://api.groq.com/openai/v1''\<rparr>"

definition groq_client :: llm_client where
  "groq_client = \<lparr>lc_provider = ''groq'', lc_api_key = ''key'',
                   lc_base_model = ''llama-3.3-70b-versatile'',
                   lc_base_url = ''https://api.groq.com/openai/v1'',
                   lc_max_retries = 3, lc_retry_delay = 1,
                   lc_model = ''groq/llama-3.3-70b-versatile''\<rparr>"

text \<open>The world after a failed attempt: the call is made and the failure is logged.\<close>

definition after_failure :: "llm_client \<Rightarrow> request \<Rightarrow> nat \<Rightarrow> string \<Rightarrow> world \<Rightarrow> world" where
  "after_failure c rq attempt t w =
     log_error ''llm_client''
       (''LLM error on attempt '' @ str_nat (attempt + 1) @ ''/''
          @ str_nat (lc_max_retries c) @ '': '' @ t)
       (w\<lparr>llm_calls := llm_calls w + 1, trace := trace w @ [Call rq]\<rparr>)"

text \<open>What a run of the retry loop that makes \<open>n\<close> attempts leaves behind.\<close>

definition loop_post ::
  "llm_client \<Rightarrow> request \<Rightarrow> world \<Rightarrow> (error + string) \<times> world \<Rightarrow> nat \<Rightarrow> bool" where
  "loop_post c rq w out n =
     (1 \<le> n \<and> n \<le> 3
      \<and> llm_calls (snd out) = llm_calls w + n
      \<and> trace (snd out) = trace w @ attempts_trace rq (lc_retry_delay c) n
      \<and> (\<forall>i < n - 1. \<exists>t. outcome w i = Inl t \<and> retryable t)
      \<and> (case fst out of
            Inr r \<Rightarrow> outcome w (n - 1) = Inr r
          | Inl e \<Rightarrow> (\<exists>t. outcome w (n - 1) = Inl t
                         \<and> e = call_failed c (Some (ProviderError t))
                         \<and> (\<not> retryable t \<or> n = 3))))"


text \<open>A provider that rejects the request as malformed, whatever the attempt.\<close>

definition malformed_world :: world where
  "malformed_world = rate_limited_world\<lparr>llm_script := (\<lambda>k. Inl ''malformed request'')\<rparr>"

text \<open>The events a step appends to the trace of the world it starts from.\<close>

definition new_events :: "world \<Rightarrow> world \<Rightarrow> event list" where
  "new_events w w' = drop (length (trace w)) (trace w')"

definition json_object_format :: pyval where
  "json_object_format = PDict [(''type'', PStr ''json_object'')]"

text \<open>The options of the call \<open>chat_service\<close> makes to extract structured data.\<close>

definition extraction_options :: "string \<rightharpoonup> pyval" where
  "extraction_options =
     [''temperature'' \<mapsto> PFloat 0.3, ''maxTokens'' \<mapsto> PInt 1000, ''jsonMode'' \<mapsto> PBool True]"

section \<open>The statements sent to the database\<close>

text \<open>
  Each SQL text of the planning engine is the function on tables it denotes. A column
  that a row does not hold is \<open>NULL\<close>, here \<open>PNone\<close>. \<open>ORDER BY\<close> is a stable sort: rows
  that tie on the key keep the order of the table.
\<close>

definition column :: "string \<Rightarrow> row \<Rightarrow> pyval" where
  "column k r = (case map_of r k of None \<Rightarrow> PNone | Some v \<Rightarrow> v)"

definition select :: "string list \<Rightarrow> row \<Rightarrow> row" where
  "select cols r = map (\<lambda>k. (k, column k r)) cols"

definition int_column :: "string \<Rightarrow> row \<Rightarrow> int" where
  "int_column k r = (case column k r of PInt n \<Rightarrow> n | _ \<Rightarrow> 0)"

definition seconds_of :: "timestamp \<Rightarrow> int" where
  "seconds_of t = toordinal (fst t) * 86400 + int (snd t)"

definition time_column :: "string \<Rightarrow> row \<Rightarrow> int" where
  "time_column k r = (case column k r of PDatetime d s \<Rightarrow> seconds_of (d, s) | _ \<Rightarrow> 0)"

text \<open>Ascending order on a date column puts \<open>NULL\<close> last.\<close>

definition date_column_nulls_last :: "string \<Rightarrow> row \<Rightarrow> int" where
  "date_column_nulls_last k r = (case column k r of PDate d \<Rightarrow> toordinal d | _ \<Rightarrow> max_ordinal + 1)"

text \<open>
  \<open>SELECT id, title, description, priority, priority_reasoning, target_date FROM goals
  WHERE user_id = $1 AND status = 'active' ORDER BY priority DESC LIMIT 5\<close>
\<close>

definition active_goals_sql :: "pyval \<Rightarrow> world \<Rightarrow> row list" where
  "active_goals_sql user_id w =
     map (select [''id'', ''title'', ''description'', ''priority'', ''priority_reasoning'',
                  ''target_date''])
       (take 5
         (sort_key (\<lambda>r. - int_column ''priority'' r)
           (filter (\<lambda>r. column ''user_id'' r = user_id \<and> column ''status'' r = PStr ''active'')
             (goals w))))"

text \<open>
  The pending tasks, each with \<open>array_agg(gt.goal_id)\<close> over the left join with
  \<open>goal_tasks\<close> (a task without a link has the one-element array of \<open>NULL\<close>), ordered by
  \<open>priority DESC, due_date ASC\<close>.
\<close>

definition goal_ids_of :: "row \<Rightarrow> world \<Rightarrow> pyval" where
  "goal_ids_of t w =
     (let links = map (column ''goal_id'')
                    (filter (\<lambda>gt. column ''task_id'' gt = column ''id'' t) (goal_tasks w))
      in PList (if links = [] then [PNone] else links))"

definition pending_tasks_sql :: "pyval \<Rightarrow> world \<Rightarrow> row list" where
  "pending_tasks_sql user_id w =
     map (\<lambda>t. select [''id'', ''title'', ''description'', ''priority'', ''priority_reasoning'',
                       ''estimated_duration'', ''due_date''] t
               @ [(''goal_ids'', goal_ids_of t w)])
       (sort_key (\<lambda>r. - int_column ''priority'' r)
         (sort_key (date_column_nulls_last ''due_date'')
           (filter (\<lambda>r. column ''user_id'' r = user_id
                         \<and> column ''status'' r \<in> {PStr ''pending'', PStr ''in_progress''})
             (tasks w))))"

text \<open>
  \<open>SELECT id, title, start_time, end_time, event_type, is_blocking FROM calendar_events
  WHERE user_id = $1 ORDER BY start_time ASC\<close>
\<close>

definition calendar_events_sql :: "pyval \<Rightarrow> world \<Rightarrow> row list" where
  "calendar_events_sql user_id w =
     map (select [''id'', ''title'', ''start_time'', ''end_time'', ''event_type'', ''is_blocking''])
       (sort_key (time_column ''start_time'')
         (filter (\<lambda>r. column ''user_id'' r = user_id) (calendar_events w)))"

definition relationships_sql :: "pyval \<Rightarrow> world \<Rightarrow> row list" where
  "relationships_sql user_id w =
     map (select [''id'', ''name'', ''relationship_type'', ''priority'', ''time_budget_hours'',
                  ''last_interaction''])
       (sort_key (\<lambda>r. - int_column ''priority'' r)
         (filter (\<lambda>r. column ''user_id'' r = user_id) (relationships w)))"

text \<open>
  The performance of the last 7 days: the counts of completed and of cancelled tasks and
  the average of \<open>actual_duration / estimated_duration\<close> over the tasks that have both,
  with a non-zero estimate; one row, always.
\<close>

definition duration_ratio :: "row \<Rightarrow> real option" where
  "duration_ratio r =
     (case (column ''actual_duration'' r, column ''estimated_duration'' r) of
        (PInt a, PInt e) \<Rightarrow> if e = 0 then None else Some (real_of_int a / real_of_int e)
      | _ \<Rightarrow> None)"

definition recent_performance_sql :: "pyval \<Rightarrow> world \<Rightarrow> row list" where
  "recent_performance_sql user_id w =
     (let rows = filter (\<lambda>r. column ''user_id'' r = user_id
                          \<and> seconds_of (now w) - 7 * 86400 \<le> time_column ''updated_at'' r)
                   (tasks w);
          ratios = List.map_filter duration_ratio rows
      in [[(''completed_tasks'',
              PInt (int (length (filter (\<lambda>r. column ''status'' r = PStr ''completed'') rows)))),
           (''cancelled_tasks'',
              PInt (int (length (filter (\<lambda>r. column ''status'' r = PStr ''cancelled'') rows)))),
           (''avg_duration_ratio'',
              if ratios = [] then PNone else PFloat (sum_list ratios / real (length ratios)))]])"

text \<open>
  The upsert of \<open>save_plan\<close>: \<open>INSERT INTO daily_plans ... VALUES ($1, $2, $3, $4, false)
  ON CONFLICT (user_id, plan_date) DO UPDATE SET plan_json, reasoning, modified_at
  RETURNING *\<close>. The stored \<open>plan_json\<close> is kept as the value that is serialised.
\<close>

definition plan_key :: "plan_row \<Rightarrow> pyval \<times> date" where
  "plan_key r = (pr_user_id r, pr_plan_date r)"

definition upsert_plan_sql ::
  "pyval \<Rightarrow> date \<Rightarrow> pyval \<Rightarrow> pyval \<Rightarrow> world \<Rightarrow> plan_row list \<times> world" where
  "upsert_plan_sql user_id plan_date plan_json reasoning w =
     (if (user_id, plan_date) \<in> plan_key ` set (daily_plans w)
      then
        (let rows = map (\<lambda>r. if plan_key r = (user_id, plan_date)
                              then r\<lparr>pr_plan_json := plan_json, pr_reasoning := reasoning,
                                     pr_modified_at := now w\<rparr>
                              else r)
                      (daily_plans w)
         in (filter (\<lambda>r. plan_key r = (user_id, plan_date)) rows, w\<lparr>daily_plans := rows\<rparr>))
      else
        (let r = \<lparr>pr_id = PUuid (''plan-'' @ str_nat (next_id w)), pr_user_id = user_id,
                   pr_plan_date = plan_date, pr_plan_json = plan_json, pr_reasoning = reasoning,
                   pr_generated_at = now w, pr_modified_at = now w, pr_is_override = False\<rparr>
         in ([r], w\<lparr>daily_plans := daily_plans w @ [r], next_id := next_id w + 1\<rparr>)))"

text \<open>\<open>SELECT COUNT(*) as count FROM override_log WHERE user_id = $1 AND week_number = $2\<close>\<close>

definition count_overrides_sql :: "pyval \<Rightarrow> int \<Rightarrow> world \<Rightarrow> row list" where
  "count_overrides_sql user_id week_number w =
     [[(''count'',
        PInt (int (length (filter (\<lambda>r. or_user_id r = user_id \<and> or_week_number r = week_number)
                             (override_log w)))))]]"

definition insert_override_sql ::
  "pyval \<Rightarrow> pyval \<Rightarrow> string \<Rightarrow> string \<Rightarrow> int \<Rightarrow> world \<Rightarrow> row list \<times> world" where
  "insert_override_sql user_id plan_id override_type reason week_number w =
     ([], w\<lparr>override_log := override_log w
               @ [\<lparr>or_id = PUuid (''override-'' @ str_nat (next_id w)), or_user_id = user_id,
                    or_plan_id = plan_id, or_override_type = override_type,
                    or_override_reason = reason, or_override_timestamp = now w,
                    or_week_number = week_number\<rparr>],
             next_id := next_id w + 1\<rparr>)"

text \<open>\<open>get_user\<close>: \<open>SELECT * FROM users LIMIT 1\<close>, the first row or \<open>None\<close>.\<close>

definition get_user :: "world \<Rightarrow> (error + row option) \<times> world" where
  "get_user =
     and_then (query (reading users))
       (\<lambda>results. return (case results of [] \<Rightarrow> None | r # rs \<Rightarrow> Some r))"

section \<open>The planning engine\<close>

text \<open>\<open>isoformat\<close> of a date and of a timestamp of whole seconds.\<close>

definition isoformat_date :: "date \<Rightarrow> string" where
  "isoformat_date d =
     zfill 4 (str_nat (nat (year d))) @ ''-'' @ zfill 2 (str_nat (nat (month d)))
       @ ''-'' @ zfill 2 (str_nat (nat (day d)))"

definition isoformat_datetime :: "date \<Rightarrow> nat \<Rightarrow> string" where
  "isoformat_datetime d s =
     isoformat_date d @ ''T'' @ zfill 2 (str_nat (s div 3600)) @ '':''
       @ zfill 2 (str_nat (s div 60 mod 60)) @ '':'' @ zfill 2 (str_nat (s mod 60))"

fun serialize_for_json :: "pyval \<Rightarrow> pyval" where
  "serialize_for_json (PUuid u) = PStr u"
| "serialize_for_json (PList xs) = PList (map serialize_for_json xs)"
| "serialize_for_json (PDict kvs) = PDict (map (\<lambda>kv. (fst kv, serialize_for_json (snd kv))) kvs)"
| "serialize_for_json (PDatetime d s) = PStr (isoformat_datetime d s)"
| "serialize_for_json (PDate d) = PStr (isoformat_date d)"
| "serialize_for_json obj = obj"

definition rows_value :: "row list \<Rightarrow> pyval" where
  "rows_value rs = PList (map PDict rs)"

text \<open>
  \<open>gather_planning_context\<close>. \<open>tomorrow_str\<close> is computed and then not used: the
  statement for the calendar events has no condition on the day.
\<close>

definition gather_planning_context :: "pyval \<Rightarrow> string \<Rightarrow> world \<Rightarrow> (error + pyval) \<times> world"
  where
  "gather_planning_context user_id target_date =
     (case strptime_ymd target_date of
        Inl e \<Rightarrow> raise e
      | Inr target_dt \<Rightarrow>
          (case add_days target_dt 1 of
             None \<Rightarrow> raise (OverflowError ''date value out of range'')
           | Some tomorrow \<Rightarrow>
               (let tomorrow_str = strftime_ymd tomorrow
                in and_then (query (reading (active_goals_sql user_id))) (\<lambda>goals_result.
                   and_then (query (reading (pending_tasks_sql user_id))) (\<lambda>tasks_result.
                   and_then (query (reading (calendar_events_sql user_id))) (\<lambda>events_result.
                   and_then (query (reading (relationships_sql user_id))) (\<lambda>relationships_result.
                   and_then (query (reading (recent_performance_sql user_id))) (\<lambda>performance_result.
                   return (PDict
                     [(''date'', PStr target_date),
                      (''goals'', serialize_for_json (rows_value goals_result)),
                      (''tasks'', serialize_for_json (rows_value tasks_result)),
                      (''calendarEvents'', serialize_for_json (rows_value events_result)),
                      (''relationships'', serialize_for_json (rows_value relationships_result)),
                      (''recentPerformance'',
                         serialize_for_json
                           (case performance_result of [] \<Rightarrow> PDict [] | r # rs \<Rightarrow> PDict r))])))))))))"

text \<open>
  \<open>safe_json_dumps\<close> serialises identifiers and dates through its default hook and
  raises TypeError on a decimal.
\<close>

fun json_serializable :: "pyval \<Rightarrow> bool" where
  "json_serializable (PList xs) = list_all json_serializable xs"
| "json_serializable (PDict kvs) = list_all (\<lambda>kv. json_serializable (snd kv)) kvs"
| "json_serializable (PDecimal x) = False"
| "json_serializable obj = True"

definition dict_get :: "pyval \<Rightarrow> string \<Rightarrow> pyval \<Rightarrow> pyval" where
  "dict_get d k dflt =
     (case d of PDict kvs \<Rightarrow> (case map_of kvs k of None \<Rightarrow> dflt | Some v \<Rightarrow> v)
      | _ \<Rightarrow> dflt)"

definition build_planning_prompt :: "pyval \<Rightarrow> error + prompt" where
  "build_planning_prompt context =
     (if json_serializable (dict_get context ''goals'' (PList []))
         \<and> json_serializable (dict_get context ''tasks'' (PList []))
         \<and> json_serializable (dict_get context ''calendarEvents'' (PList []))
         \<and> json_serializable (dict_get context ''relationships'' (PList []))
         \<and> json_serializable (dict_get context ''recentPerformance'' (PDict []))
      then Inr (PlanningPrompt context)
      else Inl (TypeError ''Object is not JSON serializable''))"

text \<open>
  \<open>generate_plan\<close>. The prompts are built before the \<open>try\<close>; inside it, a failure of
  \<open>complete\<close> and a response that is no JSON are both raised again as LLMError.
  \<open>loads\<close> is \<open>json.loads\<close>: \<open>None\<close> for a text that is no JSON.
\<close>

definition generate_plan ::
  "(string \<Rightarrow> pyval option) \<Rightarrow> llm_client \<Rightarrow> pyval \<Rightarrow> (string \<rightharpoonup> pyval) option \<Rightarrow> world
     \<Rightarrow> (error + pyval) \<times> world" where
  "generate_plan loads c context options w =
     (let options = (case options of None \<Rightarrow> Map.empty | Some opts \<Rightarrow> opts)
      in case build_planning_prompt context of
           Inl e \<Rightarrow> (Inl e, w)
         | Inr user_prompt \<Rightarrow>
             (let options = options(''jsonMode'' \<mapsto> PBool True)
              in case complete c PlanningSystemPrompt user_prompt (Some options) w of
                   (Inl error, w') \<Rightarrow> (Inl (LLMError ''Plan generation failed'' (Some error) 0), w')
                 | (Inr response, w') \<Rightarrow>
                     (case loads response of
                        None \<Rightarrow>
                          (Inl (LLMError ''LLM returned invalid JSON''
                                  (Some (ValueError ''JSONDecodeError'')) 0),
                           log_error ''llm_client''
                             (''Invalid JSON returned by LLM: '' @ response) w')
                      | Some raw_plan \<Rightarrow> (Inr raw_plan, w'))))"

record planning_engine =
  pe_llm_client :: llm_client
  pe_max_retries :: nat

definition PlanningEngine_init :: "settings \<Rightarrow> error + planning_engine" where
  "PlanningEngine_init st =
     (case LLMClient_init st of
        Inl e \<Rightarrow> Inl e
      | Inr c \<Rightarrow> Inr \<lparr>pe_llm_client = c, pe_max_retries = 3\<rparr>)"

text \<open>
  \<open>save_plan\<close>: the date is parsed once more, the upsert is sent, and the first returned
  row, when there is one, is the result.
\<close>

definition save_plan ::
  "pyval \<Rightarrow> string \<Rightarrow> pyval \<Rightarrow> world \<Rightarrow> (error + plan_row option) \<times> world" where
  "save_plan user_id plan_date plan =
     (case strptime_ymd plan_date of
        Inl e \<Rightarrow> raise e
      | Inr plan_date_obj \<Rightarrow>
          and_then
            (query (upsert_plan_sql user_id plan_date_obj plan
                      (dict_get plan ''reasoning'' (PStr ''''))))
            (\<lambda>result. return (case result of [] \<Rightarrow> None | r # rs \<Rightarrow> Some r)))"

text \<open>The body of the \<open>try\<close> of one generation attempt.\<close>

definition plan_attempt ::
  "(string \<Rightarrow> pyval option) \<Rightarrow> planning_engine \<Rightarrow> pyval \<Rightarrow> world \<Rightarrow> (error + DailyPlan) \<times> world"
  where
  "plan_attempt loads pe context w =
     (case generate_plan loads (pe_llm_client pe) context None w of
        (Inl e, w') \<Rightarrow> (Inl e, w')
      | (Inr raw_plan, w') \<Rightarrow> (validate_plan raw_plan, w'))"

definition attempt_failed :: "nat \<Rightarrow> error \<Rightarrow> string" where
  "attempt_failed attempt error =
     ''Plan generation attempt '' @ str_nat (attempt + 1) @ '' failed: '' @ error_str error"

text \<open>
  The loop \<open>for attempt in range(self.max_retries)\<close> of \<open>generate_daily_plan\<close>, from
  attempt number \<open>attempt\<close> on: its result is the pair of \<open>plan\<close> and \<open>last_error\<close>.
\<close>

function plan_attempts ::
  "(string \<Rightarrow> pyval option) \<Rightarrow> planning_engine \<Rightarrow> pyval \<Rightarrow> nat \<Rightarrow> error option \<Rightarrow> world
     \<Rightarrow> (DailyPlan option \<times> error option) \<times> world" where
  "plan_attempts loads pe context attempt last_error w =
     (if attempt < pe_max_retries pe then
        (case plan_attempt loads pe context w of
           (Inr plan, w') \<Rightarrow> ((Some plan, last_error), w')
         | (Inl error, w') \<Rightarrow>
             plan_attempts loads pe context (attempt + 1) (Some error)
               (log_error ''planning_engine'' (attempt_failed attempt error) w'))
      else ((None, last_error), w))"
  by pat_completeness auto
termination
  by (relation "measure (\<lambda>(loads, pe, context, attempt, last_error, w). pe_max_retries pe - attempt)")
    auto

declare plan_attempts.simps [simp del]

definition generate_daily_plan ::
  "(string \<Rightarrow> pyval option) \<Rightarrow> planning_engine \<Rightarrow> pyval \<Rightarrow> string \<Rightarrow> world
     \<Rightarrow> (error + pyval) \<times> world" where
  "generate_daily_plan loads pe user_id target_date w =
     (case strptime_ymd target_date of
        Inl e \<Rightarrow> (Inl e, w)
      | Inr target_date_obj \<Rightarrow>
          (case gather_planning_context user_id target_date w of
             (Inl e, w1) \<Rightarrow> (Inl e, w1)
           | (Inr context, w1) \<Rightarrow>
               (case plan_attempts loads pe context 0 None w1 of
                  ((None, last_error), w2) \<Rightarrow>
                    (Inl (PlainException
                            (''Failed to generate valid plan after '' @ str_nat (pe_max_retries pe)
                               @ '' attempts: '' @ opt_error_str last_error)), w2)
                | ((Some plan, last_error), w2) \<Rightarrow>
                    (case save_plan user_id target_date (DailyPlan_dict plan) w2 of
                       (Inl e, w3) \<Rightarrow> (Inl e, w3)
                     | (Inr saved, w3) \<Rightarrow> (Inr (DailyPlan_dict plan), w3)))))"

section \<open>The override policy\<close>

text \<open>
  \<open>int(s)\<close> on a string: blanks around the number are dropped, a sign may lead, and the
  digits may be grouped by single underscores. Every other string raises ValueError,
  here \<open>None\<close>.
\<close>

definition is_space :: "char \<Rightarrow> bool" where
  "is_space c = (ord c \<in> {9, 10, 11, 12, 13, 28, 29, 30, 31, 32, 133, 160})"

definition strip :: "string \<Rightarrow> string" where
  "strip s = rev (dropWhile is_space (rev (dropWhile is_space s)))"

fun grouped_digits :: "string \<Rightarrow> bool" where
  "grouped_digits [] = False"
| "grouped_digits [c] = is_digit c"
| "grouped_digits (c # d # cs) =
     (is_digit c \<and> (if d = CHR ''_'' then grouped_digits cs else grouped_digits (d # cs)))"

definition py_int :: "string \<Rightarrow> int option" where
  "py_int s =
     (let t = strip s;
          negative = (take 1 t = ''-'');
          body = (if take 1 t = ''-'' \<or> take 1 t = ''+'' then drop 1 t else t)
      in if grouped_digits body
         then Some ((if negative then - 1 else 1)
                      * number_of (filter (\<lambda>c. c \<noteq> CHR ''_'') body))
         else None)"

record override_status =
  os_count :: int
  os_remaining :: int
  os_limit :: int
  os_canOverride :: bool

text \<open>\<open>int(result[0]['count']) if result else 0\<close>\<close>

definition count_of :: "row list \<Rightarrow> error + int" where
  "count_of result =
     (case result of
        [] \<Rightarrow> Inr 0
      | r # rs \<Rightarrow>
          (case map_of r ''count'' of
             None \<Rightarrow> Inl (KeyError ''count'')
           | Some (PInt n) \<Rightarrow> Inr n
           | Some v \<Rightarrow> Inl (TypeError ''int() argument must be a string or a number'')))"

definition max_weekly_overrides :: "world \<Rightarrow> error + int" where
  "max_weekly_overrides w =
     (case py_int (case environ w ''MAX_WEEKLY_OVERRIDES'' of None \<Rightarrow> ''5'' | Some s \<Rightarrow> s) of
        None \<Rightarrow> Inl (ValueError ''invalid literal for int() with base 10'')
      | Some n \<Rightarrow> Inr n)"

definition check_weekly_overrides :: "pyval \<Rightarrow> world \<Rightarrow> (error + override_status) \<times> world"
  where
  "check_weekly_overrides user_id w =
     (case get_week_number (fst (now w)) of
        Inl e \<Rightarrow> (Inl e, w)
      | Inr week_number \<Rightarrow>
          and_then (query (reading (count_overrides_sql user_id week_number)))
            (\<lambda>result w'.
               case count_of result of
                 Inl e \<Rightarrow> (Inl e, w')
               | Inr count \<Rightarrow>
                   (case max_weekly_overrides w' of
                      Inl e \<Rightarrow> (Inl e, w')
                    | Inr max_overrides \<Rightarrow>
                        (Inr \<lparr>os_count = count,
                               os_remaining = max 0 (max_overrides - count),
                               os_limit = max_overrides,
                               os_canOverride = (count < max_overrides)\<rparr>, w')))
            w)"

definition log_override ::
  "pyval \<Rightarrow> pyval \<Rightarrow> string \<Rightarrow> string \<Rightarrow> world \<Rightarrow> (error + unit) \<times> world" where
  "log_override user_id plan_id override_type reason w =
     (case get_week_number (fst (now w)) of
        Inl e \<Rightarrow> (Inl e, w)
      | Inr week_number \<Rightarrow>
          and_then (query (insert_override_sql user_id plan_id override_type reason week_number))
            (\<lambda>result. return ()) w)"

section \<open>The nightly trigger\<close>

text \<open>
  \<open>_nightly_planning_job\<close>: the body of the \<open>try\<close>, and the job, which catches every
  exception of the body and logs it.
\<close>

definition nightly_planning_body ::
  "(string \<Rightarrow> pyval option) \<Rightarrow> planning_engine \<Rightarrow> world \<Rightarrow> (error + unit) \<times> world" where
  "nightly_planning_body loads pe =
     and_then get_user
       (\<lambda>user w.
          case user of
            None \<Rightarrow> (Inr (), w)
          | Some u \<Rightarrow>
              if u = [] then (Inr (), w)
              else
                (case add_days (fst (now w)) 1 of
                   None \<Rightarrow> (Inl (OverflowError ''date value out of range''), w)
                 | Some tomorrow \<Rightarrow>
                     (let target_date = strftime_ymd tomorrow
                      in case map_of u ''id'' of
                           None \<Rightarrow> (Inl (KeyError ''id''), w)
                         | Some user_id \<Rightarrow>
                             (case generate_daily_plan loads pe user_id target_date w of
                                (Inl e, w') \<Rightarrow> (Inl e, w')
                              | (Inr plan, w') \<Rightarrow> (Inr (), w')))))"

definition nightly_planning_job ::
  "(string \<Rightarrow> pyval option) \<Rightarrow> planning_engine \<Rightarrow> world \<Rightarrow> (error + unit) \<times> world" where
  "nightly_planning_job loads pe w =
     (case nightly_planning_body loads pe w of
        (Inl error, w') \<Rightarrow>
          (Inr (), log_error ''scheduler'' (''Nightly planning failed: '' @ error_str error) w')
      | (Inr u, w') \<Rightarrow> (Inr (), w'))"

section \<open>Example worlds\<close>

text \<open>
  One user with two calendar events, one on 2025-03-11 and one on 2025-04-01, and a
  provider whose answer \<open>PLAN\<close> is the JSON text of \<open>overlapping_plan\<close>.
\<close>

definition planner :: planning_engine where
  "planner = \<lparr>pe_llm_client = groq_client, pe_max_retries = 3\<rparr>"

definition plan_loads :: "string \<Rightarrow> pyval option" where
  "plan_loads s = (if s = ''PLAN'' then Some overlapping_plan else None)"

definition march_event :: row where
  "march_event =
     [(''id'', PUuid ''e1''), (''user_id'', PUuid ''u1''), (''title'', PStr ''Review''),
      (''start_time'', PDatetime (Date 2025 3 11) 32400),
      (''end_time'', PDatetime (Date 2025 3 11) 36000),
      (''event_type'', PStr ''internal''), (''is_blocking'', PBool True)]"

definition april_event :: row where
  "april_event =
     [(''id'', PUuid ''e2''), (''user_id'', PUuid ''u1''), (''title'', PStr ''Dentist''),
      (''start_time'', PDatetime (Date 2025 4 1) 32400),
      (''end_time'', PDatetime (Date 2025 4 1) 36000),
      (''event_type'', PStr ''external''), (''is_blocking'', PBool True)]"

definition planning_world :: world where
  "planning_world =
     rate_limited_world
       \<lparr>users := [[(''id'', PUuid ''u1''), (''username'', PStr ''me'')]],
        calendar_events := [april_event, march_event],
        llm_script := (\<lambda>k. Inr ''PLAN'')\<rparr>"

text \<open>The events of a user that start on a given day.\<close>

definition events_on :: "pyval \<Rightarrow> date \<Rightarrow> world \<Rightarrow> row list" where
  "events_on user_id d w =
     filter (\<lambda>r. column ''user_id'' r = user_id
                 \<and> (case column ''start_time'' r of PDatetime d' s \<Rightarrow> d' = d | _ \<Rightarrow> False))
       (calendar_events w)"

text \<open>The rows of the override log of a user in a week bucket.\<close>

definition overrides_in :: "pyval \<Rightarrow> int \<Rightarrow> world \<Rightarrow> override_row list" where
  "overrides_in user_id week w =
     filter (\<lambda>r. or_user_id r = user_id \<and> or_week_number r = week) (override_log w)"

text \<open>A world in which the user has logged five overrides in bucket 11, the bucket of the
  clock's day 2025-03-09.\<close>

definition logged_override :: override_row where
  "logged_override =
     \<lparr>or_id = PUuid ''o'', or_user_id = PUuid ''u1'', or_plan_id = PUuid ''p'',
      or_override_type = ''manual'', or_override_reason = ''late'',
      or_override_timestamp = (Date 2025 3 9, 3600), or_week_number = 11\<rparr>"

definition quota_world :: world where
  "quota_world = planning_world\<lparr>override_log := replicate 5 logged_override\<rparr>"

text \<open>A world whose provider rejects every request.\<close>

definition failing_world :: world where
  "failing_world = planning_world\<lparr>llm_script := (\<lambda>k. Inl ''malformed request'')\<rparr>"

section \<open>Properties of the week bucket\<close>

lemma get_week_number_weekdays:
  assumes "weekday a \<noteq> 6" and "weekday b \<noteq> 6" and "same_iso_week a b"
  shows "get_week_number a = get_week_number b"
proof -
  have first_day: "toordinal (Date 1 1 1) = 1"
    by code_simp
  have arith: "toordinal dt + (3 - weekday dt) = 1 + (iso_week_monday dt + 2)" for dt
    by (simp add: iso_week_monday_def)
  have shift: "add_days dt (3 - weekday dt) = add_days (Date 1 1 1) (iso_week_monday dt + 2)"
    for dt
    unfolding add_days_def first_day arith ..
  have "get_week_number dt =
          (case add_days (Date 1 1 1) (iso_week_monday dt + 2) of
             None \<Rightarrow> Inl (OverflowError ''date value out of range'')
           | Some d \<Rightarrow> Inr ((toordinal d - toordinal (Date (year d) 1 1) + 1 + 6) div 7))"
    if "weekday dt \<noteq> 6" for dt
    using that by (simp add: get_week_number_def Let_def shift split: option.splits)
  with assms show ?thesis
    by (simp add: same_iso_week_def)
qed

text \<open>
  C6. Two days of one ISO week get the same bucket, and a day of the following ISO week
  a different one. The code breaks this on Sundays: Monday 2024-01-15 and Sunday
  2024-01-21 are in the same ISO week, yet the Monday is put in bucket 3 and the Sunday
  in bucket 4, which is also the bucket of Monday 2024-01-22 in the following ISO week.
\<close>

theorem get_week_number_sunday_bucket:
  "same_iso_week (Date 2024 1 15) (Date 2024 1 21)
   \<and> get_week_number (Date 2024 1 15) = Inr 3
   \<and> get_week_number (Date 2024 1 21) = Inr 4
   \<and> following_iso_week (Date 2024 1 21) (Date 2024 1 22)
   \<and> get_week_number (Date 2024 1 22) = Inr 4"
  by code_simp

section \<open>Properties of the plan schema\<close>

























































section \<open>Properties of the completion client\<close>

lemma init_groq: "LLMClient_init groq_settings = Inr groq_client"
  by (simp add: LLMClient_init_def groq_settings_def groq_client_def)

lemma client_consts:
  assumes "LLMClient_init st = Inr c"
  shows "lc_max_retries c = 3" and "lc_retry_delay c = 1"
  using assms by (auto simp: LLMClient_init_def split: option.splits if_splits)

lemma loop_success:
  assumes "attempt < lc_max_retries c" and "outcome w 0 = Inr r"
  shows "complete_loop c rq attempt le w
           = (Inr r, w\<lparr>llm_calls := llm_calls w + 1, trace := trace w @ [Call rq]\<rparr>)"
  using assms by (subst complete_loop.simps) (simp add: acompletion_def outcome_def)

lemma loop_abort:
  assumes "attempt < lc_max_retries c" and "outcome w 0 = Inl t"
    and "\<not> retryable t \<or> attempt = lc_max_retries c - 1"
  shows "complete_loop c rq attempt le w
           = (Inl (call_failed c (Some (ProviderError t))), after_failure c rq attempt t w)"
  using assms
  by (subst complete_loop.simps) (auto simp: acompletion_def outcome_def Let_def after_failure_def)

lemma loop_retry:
  assumes "attempt < lc_max_retries c" and "outcome w 0 = Inl t"
    and "retryable t" and "attempt \<noteq> lc_max_retries c - 1"
  shows "complete_loop c rq attempt le w
           = complete_loop c rq (attempt + 1) (Some (ProviderError t))
               (sleep (lc_retry_delay c * 2 ^ attempt) (after_failure c rq attempt t w))"
  using assms
  by (subst complete_loop.simps) (auto simp: acompletion_def outcome_def Let_def after_failure_def)
lemma after_failure_simps:
  "llm_calls (after_failure c rq a t w) = llm_calls w + 1"
  "trace (after_failure c rq a t w) = trace w @ [Call rq]"
  "llm_script (after_failure c rq a t w) = llm_script w"
  "llm_calls (sleep d w) = llm_calls w"
  "trace (sleep d w) = trace w @ [Sleep d]"
  "llm_script (sleep d w) = llm_script w"
  by (simp_all add: after_failure_def log_error_def sleep_def)

lemma outcome_after_failure:
  "outcome (sleep d (after_failure c rq a t w)) i = outcome w (Suc i)"
  by (simp add: outcome_def after_failure_simps)

lemma all_less_2: "(\<forall>i<(2::nat). P i) \<longleftrightarrow> P 0 \<and> P 1"
  by (auto simp: less_2_cases_iff)

lemma attempts_trace_numeral:
  "attempts_trace rq d 1 = [Call rq]"
  "attempts_trace rq d 2 = [Call rq, Sleep d, Call rq]"
  "attempts_trace rq d 3 = [Call rq, Sleep d, Call rq, Sleep (d * 2), Call rq]"
  by (simp_all add: numeral_2_eq_2 numeral_3_eq_3)

lemma complete_loop_post:
  assumes m: "lc_max_retries c = 3"
  shows "\<exists>n. loop_post c rq w (complete_loop c rq 0 None w) n"
proof (cases "outcome w 0")
  case (Inr r)
  then have "loop_post c rq w (complete_loop c rq 0 None w) 1"
    by (simp add: loop_success m loop_post_def)
  then show ?thesis ..
next
  case t0: (Inl t0)
  show ?thesis
  proof (cases "retryable t0")
    case False
    with t0 have "loop_post c rq w (complete_loop c rq 0 None w) 1"
      by (simp add: loop_abort m loop_post_def after_failure_simps)
    then show ?thesis ..
  next
    case r0: True
    let ?w1 = "sleep (lc_retry_delay c * 2 ^ 0) (after_failure c rq 0 t0 w)"
    have step0: "complete_loop c rq 0 None w
                   = complete_loop c rq (0 + 1) (Some (ProviderError t0)) ?w1"
      using t0 r0 by (intro loop_retry) (simp_all add: m)
    have o1: "outcome ?w1 0 = outcome w 1"
      by (simp add: outcome_after_failure)
    show ?thesis
    proof (cases "outcome w 1")
      case (Inr r)
      with o1 have "complete_loop c rq (0 + 1) (Some (ProviderError t0)) ?w1
                   = (Inr r, ?w1\<lparr>llm_calls := llm_calls ?w1 + 1, trace := trace ?w1 @ [Call rq]\<rparr>)"
        by (intro loop_success) (simp_all add: m)
      with step0 have "complete_loop c rq 0 None w
                   = (Inr r, ?w1\<lparr>llm_calls := llm_calls ?w1 + 1, trace := trace ?w1 @ [Call rq]\<rparr>)"
        by (simp only:)
      with t0 r0 Inr have "loop_post c rq w (complete_loop c rq 0 None w) 2"
        by (simp add: loop_post_def after_failure_simps attempts_trace_numeral)
      then show ?thesis ..
    next
      case t1: (Inl t1)
      show ?thesis
      proof (cases "retryable t1")
        case False
        with t1 o1 have "complete_loop c rq (0 + 1) (Some (ProviderError t0)) ?w1
                   = (Inl (call_failed c (Some (ProviderError t1))),
                      after_failure c rq (0 + 1) t1 ?w1)"
          by (intro loop_abort) (simp_all add: m)
        with step0 have "complete_loop c rq 0 None w
                   = (Inl (call_failed c (Some (ProviderError t1))),
                      after_failure c rq (0 + 1) t1 ?w1)"
          by (simp only:)
        with t0 r0 t1 False have "loop_post c rq w (complete_loop c rq 0 None w) 2"
          by (simp add: loop_post_def after_failure_simps attempts_trace_numeral)
        then show ?thesis ..
      next
        case r1: True
        let ?w2 = "sleep (lc_retry_delay c * 2 ^ (0 + 1)) (after_failure c rq (0 + 1) t1 ?w1)"
        have step1: "complete_loop c rq (0 + 1) (Some (ProviderError t0)) ?w1
                       = complete_loop c rq (0 + 1 + 1) (Some (ProviderError t1)) ?w2"
          using t1 r1 o1 by (intro loop_retry) (simp_all add: m)
        have o2: "outcome ?w2 0 = outcome w 2"
          by (simp add: outcome_after_failure numeral_2_eq_2)
        show ?thesis
        proof (cases "outcome w 2")
          case (Inr r)
          with o2 have "complete_loop c rq (0 + 1 + 1) (Some (ProviderError t1)) ?w2
                   = (Inr r, ?w2\<lparr>llm_calls := llm_calls ?w2 + 1, trace := trace ?w2 @ [Call rq]\<rparr>)"
            by (intro loop_success) (simp_all add: m)
          with step0 step1 have "complete_loop c rq 0 None w
                   = (Inr r, ?w2\<lparr>llm_calls := llm_calls ?w2 + 1, trace := trace ?w2 @ [Call rq]\<rparr>)"
            by (simp only:)
          with t0 r0 t1 r1 Inr have "loop_post c rq w (complete_loop c rq 0 None w) 3"
            by (simp add: loop_post_def after_failure_simps attempts_trace_numeral all_less_2)
          then show ?thesis ..
        next
          case t2: (Inl t2)
          with o2 have "complete_loop c rq (0 + 1 + 1) (Some (ProviderError t1)) ?w2
                   = (Inl (call_failed c (Some (ProviderError t2))),
                      after_failure c rq (0 + 1 + 1) t2 ?w2)"
            by (intro loop_abort) (simp_all add: m)
          with step0 step1 have "complete_loop c rq 0 None w
                   = (Inl (call_failed c (Some (ProviderError t2))),
                      after_failure c rq (0 + 1 + 1) t2 ?w2)"
            by (simp only:)
          with t0 r0 t1 r1 t2 have "loop_post c rq w (complete_loop c rq 0 None w) 3"
            by (simp add: loop_post_def after_failure_simps attempts_trace_numeral all_less_2)
          then show ?thesis ..
        qed
      qed
    qed
  qed
qed

lemma str_nat_3: "str_nat 3 = ''3''"
  by code_simp

lemma complete_post:
  assumes "LLMClient_init st = Inr c"
  shows "\<exists>n. loop_post c (completion_params c sp up (some_options options)) w
               (complete c sp up options w) n"
  using complete_loop_post [OF client_consts(1) [OF assms]]
  by (simp add: complete_def some_options_def)

text \<open>
  C5. A call of \<open>complete\<close> on a client built by the constructor makes \<open>n\<close> attempts
  with \<open>1 \<le> n \<le> 3\<close>. Every attempt before the last one failed with a text that matches
  the retry vocabulary (\<open>retryable\<close>: the lower-cased text contains one of \<open>rate limit\<close>,
  \<open>timeout\<close>, \<open>connection\<close>, \<open>network\<close>, \<open>temporary\<close>, \<open>service unavailable\<close>, \<open>429\<close>,
  \<open>502\<close>, \<open>503\<close>, \<open>504\<close>). The calls and sleeps are those of \<open>attempts_trace\<close> with base
  delay 1: a sleep of \<open>2 ^ (m - 2)\<close> seconds before attempt \<open>m\<close>, and none after the last
  attempt. The last attempt either succeeds, and its content is returned, or fails, and
  then its text does not match the vocabulary or it was the third attempt, and the error
  raised is the one LLMError with the text \<open>LLM API call failed after 3 attempts\<close> that
  carries the failure of the last attempt.
\<close>

theorem complete_retry_policy:
  assumes "LLMClient_init st = Inr c"
    and "complete c sp up options w = (res, w')"
  shows "\<exists>n. 1 \<le> n \<and> n \<le> 3
           \<and> llm_calls w' = llm_calls w + n
           \<and> trace w' = trace w
                @ attempts_trace (completion_params c sp up (some_options options)) 1 n
           \<and> (\<forall>i < n - 1. \<exists>t. outcome w i = Inl t \<and> retryable t)
           \<and> (case res of
                 Inr r \<Rightarrow> outcome w (n - 1) = Inr r
               | Inl e \<Rightarrow>
                   (\<exists>t. outcome w (n - 1) = Inl t
                      \<and> e = LLMError ''LLM API call failed after 3 attempts''
                              (Some (ProviderError t)) 0
                      \<and> (\<not> retryable t \<or> n = 3)))"
proof -
  from complete_post [OF assms(1), of sp up options w]
  obtain n where "loop_post c (completion_params c sp up (some_options options)) w (res, w') n"
    by (auto simp: assms(2))
  then show ?thesis
    unfolding loop_post_def
    by (intro exI [of _ n])
      (simp add: client_consts [OF assms(1)] call_failed_def str_nat_3 split: sum.splits)
qed

theorem complete_retry_policy_witness:
  "LLMClient_init groq_settings = Inr groq_client
   \<and> fst (complete groq_client (Text ''s'') (Text ''u'') None rate_limited_world) = Inr ''done''
   \<and> trace (snd (complete groq_client (Text ''s'') (Text ''u'') None rate_limited_world))
        = [Call (completion_params groq_client (Text ''s'') (Text ''u'') Map.empty), Sleep 1,
           Call (completion_params groq_client (Text ''s'') (Text ''u'') Map.empty), Sleep 2,
           Call (completion_params groq_client (Text ''s'') (Text ''u'') Map.empty)]
   \<and> (\<exists>n. 1 \<le> n \<and> n \<le> 3
         \<and> trace (snd (complete groq_client (Text ''s'') (Text ''u'') None malformed_world))
              = attempts_trace
                  (completion_params groq_client (Text ''s'') (Text ''u'') Map.empty) 1 n
         \<and> \<not> retryable ''malformed request'' \<and> n = 1)"
proof -
  have init: "LLMClient_init groq_settings = Inr groq_client"
    by (simp add: LLMClient_init_def groq_settings_def groq_client_def)
  have a: "fst (complete groq_client (Text ''s'') (Text ''u'') None rate_limited_world)
             = Inr ''done''"
    by code_simp
  have a': "trace (snd (complete groq_client (Text ''s'') (Text ''u'') None rate_limited_world))
        = [Call (completion_params groq_client (Text ''s'') (Text ''u'') Map.empty), Sleep 1,
           Call (completion_params groq_client (Text ''s'') (Text ''u'') Map.empty), Sleep 2,
           Call (completion_params groq_client (Text ''s'') (Text ''u'') Map.empty)]"
    by code_simp
  have o: "outcome malformed_world 0 = Inl ''malformed request''"
    "trace malformed_world = []"
    by (simp_all add: outcome_def malformed_world_def rate_limited_world_def)
  have nr: "\<not> retryable ''malformed request''"
    by code_simp
  obtain res w' where b:
    "complete groq_client (Text ''s'') (Text ''u'') None malformed_world = (res, w')"
    by (cases "complete groq_client (Text ''s'') (Text ''u'') None malformed_world")
  from complete_retry_policy [OF init b] obtain n where n: "1 \<le> n" "n \<le> 3"
    "trace w' = trace malformed_world
       @ attempts_trace (completion_params groq_client (Text ''s'') (Text ''u'')
           (some_options None)) 1 n"
    "\<forall>i < n - 1. \<exists>t. outcome malformed_world i = Inl t \<and> retryable t"
    by blast
  have "n = 1"
  proof (rule ccontr)
    assume "n \<noteq> 1"
    with n(1) have "0 < n - 1" by simp
    with n(4) have "\<exists>t. outcome malformed_world 0 = Inl t \<and> retryable t" by blast
    with o(1) nr show False by simp
  qed
  with n b o have c: "\<exists>n. 1 \<le> n \<and> n \<le> 3
         \<and> trace (snd (complete groq_client (Text ''s'') (Text ''u'') None malformed_world))
              = attempts_trace
                  (completion_params groq_client (Text ''s'') (Text ''u'') Map.empty) 1 n
         \<and> \<not> retryable ''malformed request'' \<and> n = 1"
    using nr by (auto simp: some_options_def)
  from init a a' c show ?thesis by blast
qed


lemma Call_in_attempts_trace: "Call r \<in> set (attempts_trace rq d n) \<longleftrightarrow> r = rq \<and> 0 < n"
  by (induction rq d n rule: attempts_trace.induct) auto

text \<open>
  C8. \<open>complete\<close> reads three options, spelled \<open>temperature\<close>, \<open>maxTokens\<close> and \<open>jsonMode\<close>
  in the code. It issues at least one completion request, and every request it issues
  carries the supplied temperature, or 0.7 when none is supplied; the supplied maximum
  of tokens, or 2000 when none is supplied; and the response format \<open>json_object\<close>
  exactly when the \<open>jsonMode\<close> option is true in Python's sense, in particular when it
  is \<open>True\<close>.
\<close>

theorem complete_request_options:
  assumes "LLMClient_init st = Inr c"
    and "complete c sp up options w = (res, w')"
  shows "(\<exists>r. Call r \<in> set (new_events w w'))
       \<and> (\<forall>r. Call r \<in> set (new_events w w') \<longrightarrow>
             rq_temperature r
               = (case some_options options ''temperature'' of None \<Rightarrow> PFloat 0.7 | Some v \<Rightarrow> v)
           \<and> rq_max_tokens r
               = (case some_options options ''maxTokens'' of None \<Rightarrow> PInt 2000 | Some v \<Rightarrow> v)
           \<and> rq_response_format r
               = (if truthy (case some_options options ''jsonMode'' of None \<Rightarrow> PNone | Some v \<Rightarrow> v)
                  then Some json_object_format else None)
           \<and> (some_options options ''jsonMode'' = Some (PBool True)
                 \<longrightarrow> rq_response_format r = Some json_object_format))"
proof -
  let ?rq = "completion_params c sp up (some_options options)"
  from complete_post [OF assms(1), of sp up options w]
  obtain n where "loop_post c ?rq w (res, w') n"
    by (auto simp: assms(2))
  then have n: "1 \<le> n" and "trace w' = trace w @ attempts_trace ?rq (lc_retry_delay c) n"
    by (simp_all add: loop_post_def)
  then have new: "new_events w w' = attempts_trace ?rq (lc_retry_delay c) n"
    by (simp add: new_events_def)
  have calls: "Call r \<in> set (new_events w w') \<longleftrightarrow> r = ?rq" for r
    using n by (auto simp: new Call_in_attempts_trace)
  show ?thesis
    by (auto simp: calls completion_params_def json_object_format_def)
qed

theorem complete_request_options_witness:
  "LLMClient_init groq_settings = Inr groq_client
   \<and> (\<exists>r. Call r \<in> set (new_events rate_limited_world
         (snd (complete groq_client (Text ''s'') (Text ''u'') (Some extraction_options)
                 rate_limited_world)))
         \<and> rq_temperature r = PFloat 0.3 \<and> rq_max_tokens r = PInt 1000
         \<and> rq_response_format r = Some json_object_format)"
proof -
  have init: "LLMClient_init groq_settings = Inr groq_client"
    by (simp add: LLMClient_init_def groq_settings_def groq_client_def)
  obtain res w' where run:
    "complete groq_client (Text ''s'') (Text ''u'') (Some extraction_options) rate_limited_world
       = (res, w')"
    by (cases "complete groq_client (Text ''s'') (Text ''u'') (Some extraction_options)
                 rate_limited_world")
  have opts: "some_options (Some extraction_options) ''temperature'' = Some (PFloat 0.3)"
    "some_options (Some extraction_options) ''maxTokens'' = Some (PInt 1000)"
    "some_options (Some extraction_options) ''jsonMode'' = Some (PBool True)"
    by (simp_all add: some_options_def extraction_options_def)
  from complete_request_options [OF init run] obtain r
    where "Call r \<in> set (new_events rate_limited_world w')"
      and "rq_temperature r = PFloat 0.3" and "rq_max_tokens r = PInt 1000"
      and "rq_response_format r = Some json_object_format"
    by (auto simp: opts)
  with init run show ?thesis
    by auto
qed

section \<open>Properties of the planning engine\<close>

text \<open>
  C2. The calendar events of the context are the events of the day after the target
  date. The code does not do this: for the target date 2025-03-10 the day after is
  2025-03-11, on which the user has one event, yet the context holds both events of the
  user, the one of 2025-04-01 included.
\<close>

theorem gather_planning_context_other_days:
  "add_days (Date 2025 3 10) 1 = Some (Date 2025 3 11)
   \<and> events_on (PUuid ''u1'') (Date 2025 3 11) planning_world = [march_event]
   \<and> map_sum id (\<lambda>context. dict_get context ''calendarEvents'' PNone)
        (fst (gather_planning_context (PUuid ''u1'') ''2025-03-10'' planning_world))
      = Inr (PList
          [PDict [(''id'', PStr ''e1''), (''title'', PStr ''Review''),
                  (''start_time'', PStr ''2025-03-11T09:00:00''),
                  (''end_time'', PStr ''2025-03-11T10:00:00''),
                  (''event_type'', PStr ''internal''), (''is_blocking'', PBool True)],
           PDict [(''id'', PStr ''e2''), (''title'', PStr ''Dentist''),
                  (''start_time'', PStr ''2025-04-01T09:00:00''),
                  (''end_time'', PStr ''2025-04-01T10:00:00''),
                  (''event_type'', PStr ''external''), (''is_blocking'', PBool True)]])"
  by code_simp

text \<open>
  C10, as stated: every target date that is not of the strict shape YYYY-MM-DD makes
  \<open>generate_daily_plan\<close> raise at once. The string \<open>2025-3-1\<close> is not of that shape, yet
  it is parsed as 2025-03-01: six statements reach the database, the provider is called
  and a plan row for 2025-03-01 is written.
\<close>

theorem generate_daily_plan_short_month:
  "\<not> is_YYYY_MM_DD ''2025-3-1''
   \<and> \<not> isl (fst (generate_daily_plan plan_loads planner (PUuid ''u1'') ''2025-3-1''
                    planning_world))
   \<and> db_calls (snd (generate_daily_plan plan_loads planner (PUuid ''u1'') ''2025-3-1''
                      planning_world)) = 6
   \<and> llm_calls (snd (generate_daily_plan plan_loads planner (PUuid ''u1'') ''2025-3-1''
                       planning_world)) = 1
   \<and> map pr_plan_date
        (daily_plans (snd (generate_daily_plan plan_loads planner (PUuid ''u1'') ''2025-3-1''
                             planning_world))) = [Date 2025 3 1]"
  by code_simp

text \<open>
  C10, amended: every target date that \<open>strptime\<close> rejects for the format \<open>%Y-%m-%d\<close>
  makes \<open>generate_daily_plan\<close> raise that ValueError at once, and the world is left as it
  was: no statement is sent to the database, no completion is requested and no plan row
  is written.
\<close>

theorem generate_daily_plan_unparsable_date:
  assumes "strptime_ymd target_date = Inl e"
  shows "(\<exists>m. e = ValueError m)
         \<and> generate_daily_plan loads pe user_id target_date w = (Inl e, w)"
proof -
  from assms have "\<exists>m. e = ValueError m"
    by (auto simp: strptime_ymd_def Let_def split: if_splits option.splits prod.splits)
  moreover from assms have "generate_daily_plan loads pe user_id target_date w = (Inl e, w)"
    by (simp add: generate_daily_plan_def)
  ultimately show ?thesis ..
qed

theorem generate_daily_plan_unparsable_date_witness:
  "strptime_ymd ''10/03/2025'' = Inl (ValueError ''time data does not match format'')
   \<and> generate_daily_plan plan_loads planner (PUuid ''u1'') ''10/03/2025'' planning_world
       = (Inl (ValueError ''time data does not match format''), planning_world)"
proof -
  have h: "strptime_ymd ''10/03/2025'' = Inl (ValueError ''time data does not match format'')"
    by code_simp
  from generate_daily_plan_unparsable_date [OF h] h show ?thesis
    by simp
qed

end
